theory Spec2Isabelle
  imports Complex_Main "HOL-Library.Sublist" "HOL-Library.AList"
begin

section \<open>Agent log scorer: values, configuration and risk levels\<close>

text \<open>
  A shallow embedding of \<^verbatim>\<open>src/agents/agent_log_scorer.py\<close>: the classes
  \<^verbatim>\<open>RiskLevel\<close>, \<^verbatim>\<open>ScoringConfig\<close>, \<^verbatim>\<open>ScoreResult\<close>,
  \<^verbatim>\<open>AgentStatistics\<close> and the scoring methods of \<^verbatim>\<open>AgentLogScorer\<close>.

  Strings are \<^typ>\<open>string\<close>, holding the UTF-8 bytes of the Python text (substring search
  on UTF-8 bytes finds what substring search on code points finds). Python integers are
  \<^typ>\<open>int\<close>. Exceptions are values of the type \<open>error\<close>.
\<close>

subsection \<open>Python values\<close>

text \<open>
  The argument of \<^verbatim>\<open>score_log\<close> and \<^verbatim>\<open>validate_log\<close> is typed \<^verbatim>\<open>Any\<close>; it is
  what \<^verbatim>\<open>json.load\<close> decodes. A dictionary is an association list with string keys
  (a decoded dictionary has each key once; a lookup takes the first binding). A finite
  float is the rational number it denotes; the non-finite floats are not represented.
\<close>

datatype pyval =
    PNone
  | PBool bool
  | PInt int
  | PFloat rat
  | PStr string
  | PList "pyval list"
  | PDict "(string \<times> pyval) list"

datatype error =
    ValueError string
  | TypeError
  | KeyError
  | AttributeError

text \<open>\<^verbatim>\<open>type(v).__name__\<close>\<close>

fun type_name :: "pyval \<Rightarrow> string" where
  "type_name PNone = ''NoneType''"
| "type_name (PBool b) = ''bool''"
| "type_name (PInt i) = ''int''"
| "type_name (PFloat x) = ''float''"
| "type_name (PStr s) = ''str''"
| "type_name (PList xs) = ''list''"
| "type_name (PDict kvs) = ''dict''"

text \<open>\<^verbatim>\<open>bool(v)\<close>: the truth value of a Python value.\<close>

fun py_bool :: "pyval \<Rightarrow> bool" where
  "py_bool PNone = False"
| "py_bool (PBool b) = b"
| "py_bool (PInt i) = (i \<noteq> 0)"
| "py_bool (PFloat x) = (x \<noteq> 0)"
| "py_bool (PStr s) = (s \<noteq> [])"
| "py_bool (PList xs) = (xs \<noteq> [])"
| "py_bool (PDict kvs) = (kvs \<noteq> [])"

text \<open>
  \<^verbatim>\<open>str(v)\<close>: a string is returned as it is; for every other value \<^verbatim>\<open>str\<close> is
  \<^verbatim>\<open>repr\<close>, a built-in of Python that is taken as the parameter \<open>repr\<close>.
\<close>

fun py_str :: "(pyval \<Rightarrow> string) \<Rightarrow> pyval \<Rightarrow> string" where
  "py_str repr (PStr s) = s"
| "py_str repr v = repr v"

text \<open>\<^verbatim>\<open>d.get(key, default)\<close> on a dictionary with string keys.\<close>

definition dict_get :: "(string \<times> 'v) list \<Rightarrow> string \<Rightarrow> 'v \<Rightarrow> 'v" where
  "dict_get kvs key dflt = (case map_of kvs key of None \<Rightarrow> dflt | Some v \<Rightarrow> v)"

text \<open>\<^verbatim>\<open>needle in haystack\<close> on strings: contiguous substring search.\<close>

fun str_contains :: "string \<Rightarrow> string \<Rightarrow> bool" where
  "str_contains needle [] = (needle = [])"
| "str_contains needle (c # cs) = (prefix needle (c # cs) \<or> str_contains needle cs)"

text \<open>
  \<^verbatim>\<open>str.lower\<close> is a built-in of Python; the methods that call it take it as the
  parameter \<open>lower\<close>. \<open>py_lower\<close> is that function on texts whose upper-case letters
  are ASCII: \<open>A\<close> to \<open>Z\<close> are mapped to \<open>a\<close> to \<open>z\<close>, every other byte is kept.
\<close>

definition lower_char :: "char \<Rightarrow> char" where
  "lower_char c =
     (let n = (of_char c :: nat) in if 65 \<le> n \<and> n \<le> 90 then char_of (n + 32) else c)"

definition py_lower :: "string \<Rightarrow> string" where
  "py_lower s = map lower_char s"

subsection \<open>RiskLevel\<close>

datatype RiskLevel = LOW | MEDIUM | HIGH | CRITICAL

text \<open>\<^verbatim>\<open>RiskLevel.value\<close>\<close>

fun level_value :: "RiskLevel \<Rightarrow> string" where
  "level_value LOW = ''LOW''"
| "level_value MEDIUM = ''MEDIUM''"
| "level_value HIGH = ''HIGH''"
| "level_value CRITICAL = ''CRITICAL''"

text \<open>
  \<^verbatim>\<open>order.index(self)\<close>: the position of the first equal element. (Python raises
  ValueError for an absent element; \<open>order\<close> below holds all four levels.)
\<close>

fun list_index :: "'a list \<Rightarrow> 'a \<Rightarrow> nat" where
  "list_index [] x = 0"
| "list_index (y # ys) x = (if y = x then 0 else Suc (list_index ys x))"

definition get_order :: "RiskLevel \<Rightarrow> nat" where
  "get_order self = list_index [LOW, MEDIUM, HIGH, CRITICAL] self"

text \<open>\<^verbatim>\<open>__lt__\<close>, \<^verbatim>\<open>__le__\<close>, \<^verbatim>\<open>__gt__\<close>, \<^verbatim>\<open>__ge__\<close>\<close>

definition level_lt :: "RiskLevel \<Rightarrow> RiskLevel \<Rightarrow> bool" where
  "level_lt self other = (get_order self < get_order other)"

definition level_le :: "RiskLevel \<Rightarrow> RiskLevel \<Rightarrow> bool" where
  "level_le self other = (get_order self \<le> get_order other)"

definition level_gt :: "RiskLevel \<Rightarrow> RiskLevel \<Rightarrow> bool" where
  "level_gt self other = (get_order self > get_order other)"

definition level_ge :: "RiskLevel \<Rightarrow> RiskLevel \<Rightarrow> bool" where
  "level_ge self other = (get_order self \<ge> get_order other)"

subsection \<open>ScoringConfig\<close>

text \<open>
  \<^verbatim>\<open>yaml_rules\<close> is \<^verbatim>\<open>dict | None\<close>: the groups \<^verbatim>\<open>forbidden\<close> and
  \<^verbatim>\<open>must_include\<close>, each a list of rule strings.
\<close>

record ScoringConfig =
  price_keywords :: "string list"
  legal_keywords :: "string list"
  risk_thresholds :: "(string \<times> int) list"
  placeholder_bonus :: int
  yaml_rules :: "(string \<times> string list) list option"

text \<open>
  The defaults of the dataclass. The euro sign is the bytes E2 82 AC, the u-umlaut of
  \<^verbatim>\<open>gebuehr\<close> the bytes C3 BC.
\<close>

definition default_config :: ScoringConfig where
  "default_config = \<lparr>
     price_keywords =
       [[CHR 0xE2, CHR 0x82, CHR 0xAC], ''euro'', ''preis'', ''kostet'', ''kosten'',
        ''geb'' @ [CHR 0xC3, CHR 0xBC] @ ''hr'', ''tarif'', ''$'', ''usd'', ''chf''],
     legal_keywords =
       [''gesetz'', ''rechtlich'', ''erlaubt'', ''illegal'', ''legal'', ''vorschrift'',
        ''verordnung'', ''recht''],
     risk_thresholds = [(''low'', 0), (''medium'', 1), (''high'', 2), (''critical'', 3)],
     placeholder_bonus = - 1,
     yaml_rules = None \<rparr>"

subsection \<open>Classification\<close>

text \<open>\<^verbatim>\<open>AgentLogScorer._get_risk_level\<close>\<close>

definition get_risk_level :: "ScoringConfig \<Rightarrow> int \<Rightarrow> RiskLevel" where
  "get_risk_level config risk_score =
     (let thresholds = risk_thresholds config in
      if risk_score \<le> dict_get thresholds ''low'' 0 then LOW
      else if risk_score \<le> dict_get thresholds ''medium'' 1 then MEDIUM
      else if risk_score \<le> dict_get thresholds ''high'' 2 then HIGH
      else CRITICAL)"

subsection \<open>ScoreResult and AgentStatistics\<close>

text \<open>
  \<^verbatim>\<open>agent_id\<close>, \<^verbatim>\<open>contact\<close> and \<^verbatim>\<open>timestamp\<close> are whatever \<^verbatim>\<open>log.get\<close> returned:
  the annotation \<^verbatim>\<open>str\<close> is not checked.
\<close>

record ScoreResult =
  agent_id :: pyval
  contact :: pyval
  timestamp :: pyval
  price_claim :: bool
  price_keywords_found :: "string list"
  legal_claim :: bool
  legal_keywords_found :: "string list"
  stop_triggered :: bool
  placeholder_used :: bool
  risk :: int
  risk_level :: RiskLevel
  violations :: "string list"

text \<open>\<^verbatim>\<open>ScoreResult.is_critical\<close>\<close>

definition is_critical :: "ScoreResult \<Rightarrow> bool" where
  "is_critical self = (risk_level self = HIGH \<or> risk_level self = CRITICAL)"

record AgentStatistics =
  agent_id :: pyval
  total_interactions :: int
  total_risk_score :: int
  price_claims :: int
  legal_claims :: int
  stops_triggered :: int
  placeholders_used :: int
  critical_incidents :: int
  risk_levels :: "(string \<times> int) list"



subsection \<open>Validation and extraction\<close>

text \<open>\<^verbatim>\<open>AgentLogScorer.validate_log\<close>\<close>

definition validate_log :: "pyval \<Rightarrow> bool \<times> string" where
  "validate_log the_log =
     (case the_log of
        PDict d \<Rightarrow>
          if map_of d ''agent_id'' = None then (False, ''Pflichtfeld 'agent_id' fehlt'')
          else (case map_of d ''transcript'' of
                  None \<Rightarrow> (True, [])
                | Some (PList lines) \<Rightarrow> (True, [])
                | Some _ \<Rightarrow> (False, ''Feld 'transcript' muss eine Liste sein''))
      | _ \<Rightarrow> (False, ''Log muss ein Dictionary sein, erhalten: '' @ type_name the_log))"

text \<open>
  The loop of \<^verbatim>\<open>_extract_transcript\<close>: a dictionary contributes its \<^verbatim>\<open>text\<close> entry
  (whatever it is, the empty string when absent), a string itself, any other line
  nothing.
\<close>

fun transcript_parts :: "pyval list \<Rightarrow> pyval list \<Rightarrow> pyval list" where
  "transcript_parts parts [] = parts"
| "transcript_parts parts (line # rest) =
     (case line of
        PDict d \<Rightarrow> transcript_parts (parts @ [dict_get d ''text'' (PStr [])]) rest
      | PStr s \<Rightarrow> transcript_parts (parts @ [PStr s]) rest
      | _ \<Rightarrow> transcript_parts parts rest)"

text \<open>\<^verbatim>\<open>sep.join(parts)\<close>: TypeError when a part is not a string.\<close>

fun str_join :: "string \<Rightarrow> pyval list \<Rightarrow> error + string" where
  "str_join sep [] = Inr []"
| "str_join sep [PStr s] = Inr s"
| "str_join sep (PStr s # ps) =
     (case str_join sep ps of Inl e \<Rightarrow> Inl e | Inr t \<Rightarrow> Inr (s @ sep @ t))"
| "str_join sep (p # ps) = Inl TypeError"

text \<open>
  \<^verbatim>\<open>AgentLogScorer._extract_transcript\<close>, on the dictionary of a log. \<^verbatim>\<open>score_log\<close>
  calls it after \<^verbatim>\<open>validate_log\<close>, so a transcript that is present is a list; the
  last case is never reached from there.
\<close>

definition extract_transcript :: "(string \<times> pyval) list \<Rightarrow> error + string" where
  "extract_transcript the_log =
     (case dict_get the_log ''transcript'' (PList []) of
        PList lines \<Rightarrow> str_join '' '' (transcript_parts [] lines)
      | _ \<Rightarrow> Inl TypeError)"

subsection \<open>Keywords, score and violations\<close>

text \<open>\<^verbatim>\<open>AgentLogScorer._check_keywords\<close>\<close>

definition check_keywords :: "(string \<Rightarrow> string) \<Rightarrow> string \<Rightarrow> string list \<Rightarrow> bool \<times> string list" where
  "check_keywords lower text keywords =
     (let text_lower = lower text;
          found = filter (\<lambda>kw. str_contains (lower kw) text_lower) keywords
      in (length found > 0, found))"

text \<open>The accumulation of \<^verbatim>\<open>risk_score\<close> in \<^verbatim>\<open>score_log\<close>, before the clamp.\<close>

definition raw_risk_score :: "ScoringConfig \<Rightarrow> bool \<Rightarrow> bool \<Rightarrow> bool \<Rightarrow> bool \<Rightarrow> int" where
  "raw_risk_score config price_found legal_found stop placeholder =
     (let risk_score = 0;
          risk_score = (if price_found then risk_score + 1 else risk_score);
          risk_score = (if legal_found then risk_score + 1 else risk_score);
          risk_score = (if stop then risk_score - 1 else risk_score);
          risk_score = (if placeholder \<and> (price_found \<or> legal_found)
                        then risk_score + placeholder_bonus config else risk_score)
      in risk_score)"

text \<open>
  The prefixes of the two kinds of violation: \<^verbatim>\<open>Verstoss: \<close> (written with the sharp s,
  bytes C3 9F) and \<^verbatim>\<open>Fehlend: \<close>.
\<close>

definition verstoss :: "string \<Rightarrow> string" where
  "verstoss rule = ''Versto'' @ [CHR 0xC3, CHR 0x9F] @ '': '' @ rule"

definition fehlend :: "string \<Rightarrow> string" where
  "fehlend rule = ''Fehlend: '' @ rule"

text \<open>The two loops of \<^verbatim>\<open>_check_violations\<close>, appending to \<^verbatim>\<open>violations\<close> (here \<open>viols\<close>).\<close>

fun forbidden_loop :: "(string \<Rightarrow> string) \<Rightarrow> ScoreResult \<Rightarrow> string list \<Rightarrow> string list \<Rightarrow> string list" where
  "forbidden_loop lower result viols [] = viols"
| "forbidden_loop lower result viols (rule # rest) =
     (let viols =
            (if str_contains ''price estimates without fact'' (lower rule)
                \<and> price_claim result \<and> \<not> stop_triggered result
             then viols @ [verstoss rule] else viols);
          viols =
            (if str_contains ''legal promises without fact'' (lower rule)
                \<and> legal_claim result \<and> \<not> stop_triggered result
             then viols @ [verstoss rule] else viols)
      in forbidden_loop lower result viols rest)"

fun must_include_loop :: "(string \<Rightarrow> string) \<Rightarrow> ScoreResult \<Rightarrow> string list \<Rightarrow> string list \<Rightarrow> string list" where
  "must_include_loop lower result viols [] = viols"
| "must_include_loop lower result viols (rule # rest) =
     (let viols =
            (if str_contains ''stop_required on price'' (lower rule)
                \<and> price_claim result \<and> \<not> stop_triggered result
             then viols @ [fehlend rule] else viols);
          viols =
            (if str_contains ''stop_required on legal'' (lower rule)
                \<and> legal_claim result \<and> \<not> stop_triggered result
             then viols @ [fehlend rule] else viols)
      in must_include_loop lower result viols rest)"

text \<open>
  \<^verbatim>\<open>AgentLogScorer._check_violations\<close>. \<^verbatim>\<open>not rules\<close> holds for \<^verbatim>\<open>None\<close> and for the
  empty dictionary. The arguments \<^verbatim>\<open>log\<close> and \<^verbatim>\<open>transcript\<close> are not read.
\<close>

definition check_violations ::
  "(string \<Rightarrow> string) \<Rightarrow> ScoringConfig \<Rightarrow> pyval \<Rightarrow> string \<Rightarrow> ScoreResult \<Rightarrow> string list" where
  "check_violations lower config the_log transcript result =
     (case yaml_rules config of
        None \<Rightarrow> []
      | Some rules \<Rightarrow>
          if rules = [] then []
          else
            (let viols = forbidden_loop lower result [] (dict_get rules ''forbidden'' []);
                 viols =
                   must_include_loop lower result viols (dict_get rules ''must_include'' [])
             in viols))"

subsection \<open>The statistics table\<close>

text \<open>
  \<^verbatim>\<open>_agent_stats\<close> is a \<^verbatim>\<open>defaultdict\<close> keyed by \<^verbatim>\<open>result.agent_id\<close>. Python compares
  dictionary keys by hash and \<^verbatim>\<open>==\<close>: \<^verbatim>\<open>True\<close>, \<^verbatim>\<open>1\<close> and \<^verbatim>\<open>1.0\<close> are one key, and
  a list or a dictionary is unhashable (TypeError).
\<close>

datatype dict_key = KNone | KNum rat | KStr string

fun hash_key :: "pyval \<Rightarrow> dict_key option" where
  "hash_key PNone = Some KNone"
| "hash_key (PBool b) = Some (KNum (if b then 1 else 0))"
| "hash_key (PInt i) = Some (KNum (of_int i))"
| "hash_key (PFloat x) = Some (KNum x)"
| "hash_key (PStr s) = Some (KStr s)"
| "hash_key (PList xs) = None"
| "hash_key (PDict d) = None"

type_synonym stats_table = "dict_key \<rightharpoonup> AgentStatistics"

text \<open>The default factory of the table: \<^verbatim>\<open>AgentStatistics(agent_id="unknown")\<close>.\<close>

definition new_statistics :: AgentStatistics where
  "new_statistics = \<lparr>
     AgentStatistics.agent_id = PStr ''unknown'',
     total_interactions = 0,
     total_risk_score = 0,
     price_claims = 0,
     legal_claims = 0,
     stops_triggered = 0,
     placeholders_used = 0,
     critical_incidents = 0,
     risk_levels = [(''LOW'', 0), (''MEDIUM'', 0), (''HIGH'', 0), (''CRITICAL'', 0)] \<rparr>"

text \<open>
  \<^verbatim>\<open>AgentLogScorer._update_statistics\<close>. The table is returned as the call leaves it,
  also when the call raises: the lookup of an unhashable key raises before anything is
  stored; a histogram without the entry of the level raises KeyError after the entry of
  the agent was created and its first three fields were updated.
\<close>

definition update_statistics :: "stats_table \<Rightarrow> ScoreResult \<Rightarrow> (error + unit) \<times> stats_table" where
  "update_statistics agent_stats result =
     (case hash_key (ScoreResult.agent_id result) of
        None \<Rightarrow> (Inl TypeError, agent_stats)
      | Some k \<Rightarrow>
          (let stats = (case agent_stats k of None \<Rightarrow> new_statistics | Some s \<Rightarrow> s);
               stats = stats\<lparr>AgentStatistics.agent_id := ScoreResult.agent_id result\<rparr>;
               stats = stats\<lparr>total_interactions := total_interactions stats + 1\<rparr>;
               stats = stats\<lparr>total_risk_score := total_risk_score stats + risk result\<rparr>
           in case map_of (risk_levels stats) (level_value (risk_level result)) of
                None \<Rightarrow> (Inl KeyError, agent_stats(k \<mapsto> stats))
              | Some n \<Rightarrow>
                  (let stats = stats\<lparr>risk_levels :=
                         AList.update (level_value (risk_level result)) (n + 1) (risk_levels stats)\<rparr>;
                       stats = (if price_claim result
                                then stats\<lparr>price_claims := price_claims stats + 1\<rparr> else stats);
                       stats = (if legal_claim result
                                then stats\<lparr>legal_claims := legal_claims stats + 1\<rparr> else stats);
                       stats = (if stop_triggered result
                                then stats\<lparr>stops_triggered := stops_triggered stats + 1\<rparr> else stats);
                       stats = (if placeholder_used result
                                then stats\<lparr>placeholders_used := placeholders_used stats + 1\<rparr>
                                else stats);
                       stats = (if is_critical result
                                then stats\<lparr>critical_incidents := critical_incidents stats + 1\<rparr>
                                else stats)
                   in (Inr (), agent_stats(k \<mapsto> stats)))))"

text \<open>\<^verbatim>\<open>AgentLogScorer.reset_statistics\<close>\<close>

definition reset_statistics :: "stats_table \<Rightarrow> stats_table" where
  "reset_statistics agent_stats = Map.empty"

subsection \<open>score_log\<close>

text \<open>
  \<^verbatim>\<open>AgentLogScorer.score_log\<close>: the result or the exception, and the statistics table as
  the call leaves it. After the validation the log (\<open>the_log\<close>, as \<open>log\<close> is the logarithm of HOL) is a dictionary and every access is
  \<^verbatim>\<open>log.get\<close>.
\<close>

definition score_log ::
  "(string \<Rightarrow> string) \<Rightarrow> (pyval \<Rightarrow> string) \<Rightarrow> ScoringConfig \<Rightarrow> stats_table \<Rightarrow> pyval
     \<Rightarrow> (error + ScoreResult) \<times> stats_table" where
  "score_log lower repr config agent_stats the_log =
     (let (is_valid, error_msg) = validate_log the_log in
      if \<not> is_valid then (Inl (ValueError error_msg), agent_stats)
      else
        (case the_log of
           PDict d \<Rightarrow>
             (case extract_transcript d of
                Inl e \<Rightarrow> (Inl e, agent_stats)
              | Inr transcript \<Rightarrow>
                  (let (price_found, price_kws) =
                         check_keywords lower transcript (price_keywords config);
                       (legal_found, legal_kws) =
                         check_keywords lower transcript (legal_keywords config);
                       stop = py_bool (dict_get d ''stop_triggered'' (PBool False));
                       result_text = py_str repr (dict_get d ''result'' (PStr []));
                       placeholder = (str_contains ''PLACEHOLDER'' result_text
                                      \<or> str_contains ''STOP_REQUIRED'' result_text);
                       risk_score = raw_risk_score config price_found legal_found stop placeholder;
                       risk_score = max 0 risk_score;
                       level = get_risk_level config risk_score;
                       result = \<lparr>
                         ScoreResult.agent_id = dict_get d ''agent_id'' PNone,
                         contact = dict_get d ''contact_name'' PNone,
                         timestamp = dict_get d ''timestamp'' PNone,
                         price_claim = price_found,
                         price_keywords_found = price_kws,
                         legal_claim = legal_found,
                         legal_keywords_found = legal_kws,
                         stop_triggered = stop,
                         placeholder_used = placeholder,
                         risk = risk_score,
                         risk_level = level,
                         violations = [] \<rparr>;
                       result = result\<lparr>violations :=
                         check_violations lower config the_log transcript result\<rparr>
                   in case update_statistics agent_stats result of
                        (Inl e, agent_stats') \<Rightarrow> (Inl e, agent_stats')
                      | (Inr u, agent_stats') \<Rightarrow> (Inr result, agent_stats')))
         | _ \<Rightarrow> (Inl AttributeError, agent_stats)))"

subsection \<open>Sequences of calls\<close>

text \<open>
  A scorer is used through \<^verbatim>\<open>score_log\<close> and \<^verbatim>\<open>reset_statistics\<close>. \<open>run_calls\<close>
  performs a sequence of such calls on a table; a call of \<^verbatim>\<open>score_log\<close> that raises
  leaves the table as \<open>score_log\<close> returns it. \<open>observe_all\<close> feeds results to
  \<^verbatim>\<open>_update_statistics\<close> one after the other.
\<close>

datatype call = ScoreLog pyval | ResetStatistics

fun run_calls ::
  "(string \<Rightarrow> string) \<Rightarrow> (pyval \<Rightarrow> string) \<Rightarrow> ScoringConfig \<Rightarrow> stats_table \<Rightarrow> call list
     \<Rightarrow> stats_table" where
  "run_calls lower repr config agent_stats [] = agent_stats"
| "run_calls lower repr config agent_stats (ScoreLog the_log # calls) =
     run_calls lower repr config (snd (score_log lower repr config agent_stats the_log)) calls"
| "run_calls lower repr config agent_stats (ResetStatistics # calls) =
     run_calls lower repr config (reset_statistics agent_stats) calls"


subsection \<open>Invariant and test data\<close>

text \<open>
  The invariant of an entry of the statistics table: the histogram has the four levels in
  the order of the default factory, the interaction count is the sum of its counters
  (\<^verbatim>\<open>sum(risk_levels.values())\<close>), and the count of critical incidents is the sum of the
  counters of HIGH and CRITICAL.
\<close>

definition histogram_invariant :: "AgentStatistics \<Rightarrow> bool" where
  "histogram_invariant s \<longleftrightarrow>
     map fst (risk_levels s) = [''LOW'', ''MEDIUM'', ''HIGH'', ''CRITICAL'']
     \<and> total_interactions s = sum_list (map snd (risk_levels s))
     \<and> critical_incidents s =
         dict_get (risk_levels s) ''HIGH'' 0 + dict_get (risk_levels s) ''CRITICAL'' 0"

text \<open>
  The log of \<^verbatim>\<open>test_score_log_price_claim_with_stop\<close>; the log of
  \<^verbatim>\<open>test_both_claims_highest_risk\<close> with the euro sign written as a word; and a result as
  the tests of \<^verbatim>\<open>AgentStatistics\<close> build them, with a given risk and level.
\<close>

definition log_price_claim_with_stop :: pyval where
  "log_price_claim_with_stop =
     PDict [(''agent_id'', PStr ''AGENT_001''),
            (''transcript'', PList [PDict [(''text'', PStr ''Sie fragen nach dem Preis?'')]]),
            (''stop_triggered'', PBool True),
            (''result'', PStr ''STOP_REQUIRED'')]"

definition log_both_claims :: pyval where
  "log_both_claims =
     PDict [(''agent_id'', PStr ''AGENT_001''),
            (''transcript'',
               PList [PDict [(''text'', PStr ''Das kostet 100 Euro und ist gesetzlich geregelt'')]]),
            (''stop_triggered'', PBool False)]"

definition observation :: "int \<Rightarrow> RiskLevel \<Rightarrow> ScoreResult" where
  "observation n level = \<lparr>
     ScoreResult.agent_id = PStr ''AGENT_001'', contact = PNone, timestamp = PNone,
     price_claim = True, price_keywords_found = [''euro''],
     legal_claim = False, legal_keywords_found = [],
     stop_triggered = False, placeholder_used = False,
     risk = n, risk_level = level, violations = [] \<rparr>"

section \<open>Properties of the classification\<close>

lemma get_order_simps:
  "get_order LOW = 0" "get_order MEDIUM = 1" "get_order HIGH = 2" "get_order CRITICAL = 3"
  by (simp_all add: get_order_def)

lemma get_risk_level_mono_general:
  "s1 \<le> s2 \<Longrightarrow> get_order (get_risk_level config s1) \<le> get_order (get_risk_level config s2)"
  by (simp add: get_risk_level_def Let_def get_order_simps)

text \<open>
  Claim C1. For scores \<open>0 \<le> s1 < s2\<close> and a threshold configuration whose low, medium
  and high bounds are non-decreasing, the level of \<open>s1\<close> is at most the level of \<open>s2\<close>
  in the order of \<^verbatim>\<open>RiskLevel.__le__\<close>.
\<close>

theorem get_risk_level_monotonic:
  assumes "0 \<le> s1" and "s1 < s2"
    and "dict_get (risk_thresholds config) ''low'' 0 \<le> dict_get (risk_thresholds config) ''medium'' 1"
    and "dict_get (risk_thresholds config) ''medium'' 1 \<le> dict_get (risk_thresholds config) ''high'' 2"
  shows "level_le (get_risk_level config s1) (get_risk_level config s2)"
  using assms(2) get_risk_level_mono_general [of s1 s2 config]
  by (simp add: level_le_def)

theorem get_risk_level_monotonic_witness:
  "level_le (get_risk_level default_config 1) (get_risk_level default_config 3)
   \<and> get_risk_level default_config 1 = MEDIUM \<and> get_risk_level default_config 3 = CRITICAL"
proof -
  have th: "dict_get (risk_thresholds default_config) ''low'' 0 = 0"
    "dict_get (risk_thresholds default_config) ''medium'' 1 = 1"
    "dict_get (risk_thresholds default_config) ''high'' 2 = 2"
    by (simp_all add: default_config_def dict_get_def)
  have "level_le (get_risk_level default_config 1) (get_risk_level default_config 3)"
    by (rule get_risk_level_monotonic) (simp_all add: th)
  moreover have "get_risk_level default_config 1 = MEDIUM"
    "get_risk_level default_config 3 = CRITICAL"
    by (simp_all add: get_risk_level_def Let_def th)
  ultimately show ?thesis by simp
qed

text \<open>
  Claim C2. With the three bounds present, the level is LOW for a score up to the low
  bound, else MEDIUM up to the medium bound, else HIGH up to the high bound, else
  CRITICAL; and the entry \<^verbatim>\<open>critical\<close> is never read: adding, changing or removing it
  leaves every classification as it was.
\<close>

theorem get_risk_level_cases:
  assumes "map_of (risk_thresholds config) ''low'' = Some lo"
    and "map_of (risk_thresholds config) ''medium'' = Some me"
    and "map_of (risk_thresholds config) ''high'' = Some hi"
  shows "get_risk_level config score =
           (if score \<le> lo then LOW else if score \<le> me then MEDIUM
            else if score \<le> hi then HIGH else CRITICAL)
         \<and> get_risk_level (config\<lparr>risk_thresholds := (''critical'', c) # risk_thresholds config\<rparr>) score
             = get_risk_level config score
         \<and> get_risk_level (config\<lparr>risk_thresholds :=
                 filter (\<lambda>kv. fst kv \<noteq> ''critical'') (risk_thresholds config)\<rparr>) score
             = get_risk_level config score"
proof -
  have "dict_get (filter (\<lambda>kv. fst kv \<noteq> ''critical'') kvs) k d = dict_get kvs k d"
    if "k \<noteq> ''critical''" for kvs :: "(string \<times> int) list" and k d
    using that by (induction kvs) (auto simp: dict_get_def)
  then show ?thesis
    using assms by (simp add: get_risk_level_def Let_def dict_get_def)
qed

theorem get_risk_level_cases_witness:
  "get_risk_level default_config 0 = LOW \<and> get_risk_level default_config 1 = MEDIUM
   \<and> get_risk_level default_config 2 = HIGH \<and> get_risk_level default_config 7 = CRITICAL
   \<and> get_risk_level (default_config\<lparr>risk_thresholds :=
         filter (\<lambda>kv. fst kv \<noteq> ''critical'') (risk_thresholds default_config)\<rparr>) 7 = CRITICAL"
proof -
  have m: "map_of (risk_thresholds default_config) ''low'' = Some 0"
    "map_of (risk_thresholds default_config) ''medium'' = Some 1"
    "map_of (risk_thresholds default_config) ''high'' = Some 2"
    by (simp_all add: default_config_def)
  show ?thesis
    using get_risk_level_cases [OF m, of 0] get_risk_level_cases [OF m, of 1]
      get_risk_level_cases [OF m, of 2] get_risk_level_cases [OF m, of 7]
    by simp
qed

section \<open>Properties of the validation\<close>

text \<open>
  Claim C5. \<^verbatim>\<open>validate_log\<close> accepts a value exactly when it is a dictionary that has the
  key \<^verbatim>\<open>agent_id\<close> and whose \<^verbatim>\<open>transcript\<close>, when present, is a list, whatever else the
  dictionary holds; an accepted value gets the empty message, and each way of failing
  gets its message: not a dictionary (with the name of the type), no \<^verbatim>\<open>agent_id\<close>, a
  transcript that is not a list. The string \<^verbatim>\<open>not a dict\<close> fails as not a dictionary.
\<close>

theorem validate_log_spec:
  "(fst (validate_log the_log) \<longleftrightarrow>
      (\<exists>d. the_log = PDict d \<and> ''agent_id'' \<in> set (map fst d)
           \<and> (\<forall>t. map_of d ''transcript'' = Some t \<longrightarrow> (\<exists>lines. t = PList lines))))
   \<and> (fst (validate_log the_log) \<longrightarrow> validate_log the_log = (True, []))
   \<and> ((\<forall>d. the_log \<noteq> PDict d) \<longrightarrow>
        validate_log the_log =
          (False, ''Log muss ein Dictionary sein, erhalten: '' @ type_name the_log))
   \<and> (\<forall>d. the_log = PDict d \<and> ''agent_id'' \<notin> set (map fst d) \<longrightarrow>
        validate_log the_log = (False, ''Pflichtfeld 'agent_id' fehlt''))
   \<and> (\<forall>d t. the_log = PDict d \<and> ''agent_id'' \<in> set (map fst d)
          \<and> map_of d ''transcript'' = Some t \<and> (\<forall>lines. t \<noteq> PList lines) \<longrightarrow>
        validate_log the_log = (False, ''Feld 'transcript' muss eine Liste sein''))
   \<and> validate_log (PStr ''not a dict'') =
        (False, ''Log muss ein Dictionary sein, erhalten: str'')"
proof (cases the_log)
  case (PDict d)
  show ?thesis
  proof (cases "map_of d ''agent_id''")
    case None
    then have "''agent_id'' \<notin> set (map fst d)"
      by (simp add: map_of_eq_None_iff)
    with None PDict show ?thesis by (simp add: validate_log_def)
  next
    case (Some a)
    then have present: "''agent_id'' \<in> set (map fst d)"
      using map_of_eq_None_iff [of d "''agent_id''"] by simp
    show ?thesis
    proof (cases "map_of d ''transcript''")
      case None
      with PDict Some present show ?thesis by (simp add: validate_log_def)
    next
      case t: (Some t)
      with PDict Some present show ?thesis by (cases t) (simp_all add: validate_log_def)
    qed
  qed
qed (simp_all add: validate_log_def)

theorem validate_log_spec_witness:
  "fst (validate_log
          (PDict [(''agent_id'', PInt 7), (''transcript'', PList []), (''result'', PList [])]))
   \<and> validate_log (PDict [(''agent_id'', PInt 7), (''transcript'', PStr ''hello'')])
        = (False, ''Feld 'transcript' muss eine Liste sein'')
   \<and> validate_log (PDict [(''transcript'', PList [])]) = (False, ''Pflichtfeld 'agent_id' fehlt'')
   \<and> validate_log (PList []) = (False, ''Log muss ein Dictionary sein, erhalten: list'')"
  using
    validate_log_spec
      [of "PDict [(''agent_id'', PInt 7), (''transcript'', PList []), (''result'', PList [])]"]
    validate_log_spec [of "PDict [(''agent_id'', PInt 7), (''transcript'', PStr ''hello'')]"]
    validate_log_spec [of "PDict [(''transcript'', PList [])]"]
    validate_log_spec [of "PList []"]
  by simp

text \<open>
  Claim C10. A call of \<^verbatim>\<open>score_log\<close> on a value that \<^verbatim>\<open>validate_log\<close> rejects raises
  ValueError with the message of the validation and leaves the statistics table as it
  was: no entry is created or changed.
\<close>

theorem score_log_invalid_unchanged:
  assumes "\<not> fst (validate_log the_log)"
  shows "score_log lower repr config agent_stats the_log =
           (Inl (ValueError (snd (validate_log the_log))), agent_stats)"
  using assms by (cases "validate_log the_log") (simp add: score_log_def)

theorem score_log_invalid_unchanged_witness:
  "score_log py_lower (\<lambda>v. []) default_config [KStr ''AGENT_001'' \<mapsto> new_statistics]
       (PStr ''not a dict'')
     = (Inl (ValueError ''Log muss ein Dictionary sein, erhalten: str''),
        [KStr ''AGENT_001'' \<mapsto> new_statistics])"
proof -
  have v: "validate_log (PStr ''not a dict'')
             = (False, ''Log muss ein Dictionary sein, erhalten: str'')"
    by (simp add: validate_log_def)
  then have "\<not> fst (validate_log (PStr ''not a dict''))" by simp
  from score_log_invalid_unchanged [OF this] show ?thesis by (simp add: v)
qed

section \<open>Properties of the keyword search\<close>

lemma str_contains_sublist: "str_contains needle hay \<longleftrightarrow> sublist needle hay"
  by (induction hay) (auto simp: sublist_Cons_right)

text \<open>
  Claim C6, as the code has it. A keyword list that names a keyword twice gets it found
  twice: \<^verbatim>\<open>_check_keywords\<close> has no step that removes duplicates.
\<close>

theorem check_keywords_duplicates:
  "\<not> distinct (snd (check_keywords py_lower ''euro'' [''euro'', ''euro'']))"
  by code_simp

text \<open>
  Claim C6, amended. \<^verbatim>\<open>_check_keywords\<close> searches the lower-cased keyword as a
  contiguous substring of the lower-cased text (\<open>sublist xs ys\<close> is
  \<open>\<exists>ps ss. ys = ps @ xs @ ss\<close>): the boolean says whether some keyword of the list
  occurs, and the found list is the keyword list restricted to the keywords that occur,
  in the order of the keyword list, each entry of the list kept once; it has no
  duplicates when the keyword list has none. The function is pure: it reads its two
  arguments only, so two calls on the same arguments give the same pair.
\<close>

theorem check_keywords_spec:
  "(fst (check_keywords lower text keywords) \<longleftrightarrow>
      (\<exists>kw \<in> set keywords. sublist (lower kw) (lower text)))
   \<and> snd (check_keywords lower text keywords) =
       filter (\<lambda>kw. sublist (lower kw) (lower text)) keywords
   \<and> subseq (snd (check_keywords lower text keywords)) keywords
   \<and> (distinct keywords \<longrightarrow> distinct (snd (check_keywords lower text keywords)))"
  by (auto simp: check_keywords_def Let_def str_contains_sublist filter_empty_conv)

theorem check_keywords_spec_witness:
  "check_keywords py_lower ''Das kostet 100 EURO'' [''euro'', ''kostet'', ''chf'']
     = (True, [''euro'', ''kostet''])
   \<and> subseq (snd (check_keywords py_lower ''Das kostet 100 EURO'' [''euro'', ''kostet'', ''chf'']))
        [''euro'', ''kostet'', ''chf'']
   \<and> distinct (snd (check_keywords py_lower ''Das kostet 100 EURO'' [''euro'', ''kostet'', ''chf'']))"
proof -
  have "check_keywords py_lower ''Das kostet 100 EURO'' [''euro'', ''kostet'', ''chf'']
          = (True, [''euro'', ''kostet''])"
    by code_simp
  moreover have "distinct [''euro'', ''kostet'', ''chf'']" by simp
  ultimately show ?thesis
    using check_keywords_spec [of py_lower "''Das kostet 100 EURO''" "[''euro'', ''kostet'', ''chf'']"]
    by blast
qed

section \<open>Properties of the violation rules\<close>

lemma forbidden_loop_eq:
  "forbidden_loop lower result viols rules =
     viols @ concat (map (\<lambda>rule.
         (if sublist ''price estimates without fact'' (lower rule)
             \<and> price_claim result \<and> \<not> stop_triggered result then [verstoss rule] else [])
       @ (if sublist ''legal promises without fact'' (lower rule)
             \<and> legal_claim result \<and> \<not> stop_triggered result then [verstoss rule] else []))
       rules)"
  by (induction rules arbitrary: viols) (simp_all add: Let_def str_contains_sublist)

lemma must_include_loop_eq:
  "must_include_loop lower result viols rules =
     viols @ concat (map (\<lambda>rule.
         (if sublist ''stop_required on price'' (lower rule)
             \<and> price_claim result \<and> \<not> stop_triggered result then [fehlend rule] else [])
       @ (if sublist ''stop_required on legal'' (lower rule)
             \<and> legal_claim result \<and> \<not> stop_triggered result then [fehlend rule] else []))
       rules)"
  by (induction rules arbitrary: viols) (simp_all add: Let_def str_contains_sublist)

text \<open>
  Claim C8. Without a rule set \<^verbatim>\<open>_check_violations\<close> returns the empty list. With a rule
  set it returns, in this order and nothing else: for each rule of \<^verbatim>\<open>forbidden\<close>, in
  the order of the group, one \<^verbatim>\<open>Verstoss\<close> entry if the lower-cased rule contains
  \<^verbatim>\<open>price estimates without fact\<close> and there is a price claim without a stop, and one if
  it contains \<^verbatim>\<open>legal promises without fact\<close> and there is a legal claim without a stop;
  then for each rule of \<^verbatim>\<open>must_include\<close> one \<^verbatim>\<open>Fehlend\<close> entry if it contains
  \<^verbatim>\<open>stop_required on price\<close> and there is a price claim without a stop, and one if it
  contains \<^verbatim>\<open>stop_required on legal\<close> and there is a legal claim without a stop. A
  missing group counts as empty.
\<close>

theorem check_violations_spec:
  "(yaml_rules config = None \<longrightarrow> check_violations lower config the_log transcript result = [])
   \<and> (\<forall>rules. yaml_rules config = Some rules \<longrightarrow>
        check_violations lower config the_log transcript result =
          concat (map (\<lambda>rule.
              (if sublist ''price estimates without fact'' (lower rule)
                  \<and> price_claim result \<and> \<not> stop_triggered result then [verstoss rule] else [])
            @ (if sublist ''legal promises without fact'' (lower rule)
                  \<and> legal_claim result \<and> \<not> stop_triggered result then [verstoss rule] else []))
            (dict_get rules ''forbidden'' []))
          @ concat (map (\<lambda>rule.
              (if sublist ''stop_required on price'' (lower rule)
                  \<and> price_claim result \<and> \<not> stop_triggered result then [fehlend rule] else [])
            @ (if sublist ''stop_required on legal'' (lower rule)
                  \<and> legal_claim result \<and> \<not> stop_triggered result then [fehlend rule] else []))
            (dict_get rules ''must_include'' [])))"
  by (auto simp: check_violations_def Let_def forbidden_loop_eq must_include_loop_eq dict_get_def)

theorem check_violations_spec_witness:
  "check_violations py_lower default_config PNone [] (observation 1 MEDIUM) = []
   \<and> check_violations py_lower
        (default_config\<lparr>yaml_rules := Some
           [(''forbidden'', [''Price estimates without FACT reference'',
                             ''Legal promises without FACT reference'']),
            (''must_include'', [''STOP_REQUIRED on price questions''])]\<rparr>)
        PNone [] (observation 1 MEDIUM)
       = [verstoss ''Price estimates without FACT reference'',
          fehlend ''STOP_REQUIRED on price questions'']"
proof -
  let ?rules = "[(''forbidden'', [''Price estimates without FACT reference'',
                             ''Legal promises without FACT reference'']),
            (''must_include'', [''STOP_REQUIRED on price questions''])]"
  have lower:
    "py_lower ''Price estimates without FACT reference'' = ''price estimates without fact reference''"
    "py_lower ''Legal promises without FACT reference'' = ''legal promises without fact reference''"
    "py_lower ''STOP_REQUIRED on price questions'' = ''stop_required on price questions''"
    by code_simp+
  have sub:
    "sublist ''price estimates without fact'' ''price estimates without fact reference''"
    "\<not> sublist ''legal promises without fact'' ''price estimates without fact reference''"
    "\<not> sublist ''price estimates without fact'' ''legal promises without fact reference''"
    "sublist ''stop_required on price'' ''stop_required on price questions''"
    "\<not> sublist ''stop_required on legal'' ''stop_required on price questions''"
    by code_simp+
  have none: "yaml_rules default_config = None"
    by (simp add: default_config_def)
  have some: "yaml_rules (default_config\<lparr>yaml_rules := Some ?rules\<rparr>) = Some ?rules"
    by simp
  show ?thesis
    using check_violations_spec [of default_config py_lower PNone "[]" "observation 1 MEDIUM"]
      check_violations_spec [of "default_config\<lparr>yaml_rules := Some ?rules\<rparr>" py_lower PNone "[]"
        "observation 1 MEDIUM"]
    by (simp add: none lower sub dict_get_def observation_def)
qed

section \<open>Properties of score_log\<close>

lemma validate_log_dict:
  assumes "fst (validate_log the_log)"
  obtains d where "the_log = PDict d" "validate_log the_log = (True, [])"
  using assms
  by (cases the_log) (auto simp: validate_log_def split: if_splits option.splits pyval.splits)

text \<open>
  On a validated log whose transcript joins, \<open>score_log\<close> builds one result, hands it to
  \<open>update_statistics\<close> and returns it unless that call raises.
\<close>

lemma score_log_valid_unfold:
  assumes "validate_log (PDict d) = (True, [])" and "extract_transcript d = Inr t"
  shows "\<exists>R. score_log lower repr config agent_stats (PDict d) =
              (case update_statistics agent_stats R of
                 (Inl e, st') \<Rightarrow> (Inl e, st')
               | (Inr u, st') \<Rightarrow> (Inr R, st'))
            \<and> ScoreResult.agent_id R = dict_get d ''agent_id'' PNone"
proof -
  obtain pf pk where p: "check_keywords lower t (price_keywords config) = (pf, pk)"
    by (cases "check_keywords lower t (price_keywords config)")
  obtain lf lk where l: "check_keywords lower t (legal_keywords config) = (lf, lk)"
    by (cases "check_keywords lower t (legal_keywords config)")
  show ?thesis
    apply (simp only: score_log_def Let_def assms p l prod.case pyval.case sum.case
        not_True_eq_False if_False)
    apply (rule exI, rule conjI, rule refl)
    apply simp
    done
qed

lemma score_log_returned:
  assumes "score_log lower repr config agent_stats the_log = (Inr r, st')"
  shows "risk r = max 0 (raw_risk_score config (price_claim r) (legal_claim r)
                            (stop_triggered r) (placeholder_used r))
         \<and> risk_level r = get_risk_level config (risk r)
         \<and> fst (validate_log the_log)"
proof (cases "fst (validate_log the_log)")
  case False
  then show ?thesis using assms
    by (cases "validate_log the_log") (simp add: score_log_def)
next
  case True
  then obtain d where d: "the_log = PDict d" "validate_log the_log = (True, [])"
    by (rule validate_log_dict)
  show ?thesis
    using assms unfolding d(1) score_log_def
    by (auto simp: d(2)[unfolded d(1)] Let_def split: sum.splits prod.splits)
qed

lemma update_statistics_ok:
  assumes "hash_key (ScoreResult.agent_id result) = Some k"
    and "\<And>s. agent_stats k = Some s \<Longrightarrow>
           map_of (risk_levels s) (level_value (risk_level result)) \<noteq> None"
  shows "\<exists>st'. update_statistics agent_stats result = (Inr (), st')"
proof (cases "agent_stats k")
  case None
  then show ?thesis using assms(1)
    by (cases "risk_level result") (simp_all add: update_statistics_def Let_def new_statistics_def)
next
  case (Some s)
  with assms(2) obtain n where "map_of (risk_levels s) (level_value (risk_level result)) = Some n"
    by blast
  with Some assms(1) show ?thesis
    by (simp add: update_statistics_def Let_def)
qed

text \<open>
  Claim C3. For a log that passes the validation, whatever the configuration (the
  placeholder bonus is any integer): a result that \<^verbatim>\<open>score_log\<close> returns has a risk of
  at least 0, the raw accumulation clamped by \<^verbatim>\<open>max(0, _)\<close>. And \<^verbatim>\<open>score_log\<close> does
  return a result when the transcript joins to a string (no TypeError of \<^verbatim>\<open>join\<close>), the
  agent id is hashable, and the entry of the agent, if there is one, has the four
  counters of the histogram.
\<close>

theorem score_log_risk_nonneg:
  assumes "fst (validate_log the_log)"
  shows "(\<forall>r st'. score_log lower repr config agent_stats the_log = (Inr r, st') \<longrightarrow>
            0 \<le> risk r
            \<and> risk r = max 0 (raw_risk_score config (price_claim r) (legal_claim r)
                                 (stop_triggered r) (placeholder_used r)))
         \<and> (\<forall>d t k. the_log = PDict d \<and> extract_transcript d = Inr t
               \<and> hash_key (dict_get d ''agent_id'' PNone) = Some k
               \<and> (\<forall>s l. agent_stats k = Some s \<longrightarrow> map_of (risk_levels s) (level_value l) \<noteq> None)
             \<longrightarrow> (\<exists>r st'. score_log lower repr config agent_stats the_log = (Inr r, st')
                     \<and> 0 \<le> risk r))"
proof (intro conjI allI impI)
  fix r st'
  assume "score_log lower repr config agent_stats the_log = (Inr r, st')"
  from score_log_returned [OF this]
  show "risk r = max 0 (raw_risk_score config (price_claim r) (legal_claim r)
                                 (stop_triggered r) (placeholder_used r))"
    by simp
  then show "0 \<le> risk r" by simp
next
  fix d t k
  assume a: "the_log = PDict d \<and> extract_transcript d = Inr t
               \<and> hash_key (dict_get d ''agent_id'' PNone) = Some k
               \<and> (\<forall>s l. agent_stats k = Some s \<longrightarrow> map_of (risk_levels s) (level_value l) \<noteq> None)"
  from assms obtain d' where d': "the_log = PDict d'" "validate_log the_log = (True, [])"
    by (rule validate_log_dict)
  with a have v: "validate_log (PDict d) = (True, [])" by simp
  from a have t: "extract_transcript d = Inr t" by simp
  from score_log_valid_unfold [OF v t, of lower repr config agent_stats]
  obtain R where R: "score_log lower repr config agent_stats (PDict d) =
              (case update_statistics agent_stats R of
                 (Inl e, st') \<Rightarrow> (Inl e, st')
               | (Inr u, st') \<Rightarrow> (Inr R, st'))"
    and Rid: "ScoreResult.agent_id R = dict_get d ''agent_id'' PNone"
    by blast
  have "\<exists>st'. update_statistics agent_stats R = (Inr (), st')"
    by (rule update_statistics_ok [of R k]) (use a Rid in auto)
  then obtain st' where "update_statistics agent_stats R = (Inr (), st')" ..
  with R a have ret: "score_log lower repr config agent_stats the_log = (Inr R, st')"
    by simp
  moreover from score_log_returned [OF ret] have "0 \<le> risk R" by simp
  ultimately show "\<exists>r st'. score_log lower repr config agent_stats the_log = (Inr r, st') \<and> 0 \<le> risk r"
    by blast
qed

theorem score_log_risk_nonneg_witness:
  "fst (validate_log log_price_claim_with_stop)
   \<and> raw_risk_score (default_config\<lparr>placeholder_bonus := - 100\<rparr>) True False True True = - 100
   \<and> (\<exists>r st'. score_log py_lower (\<lambda>v. []) (default_config\<lparr>placeholder_bonus := - 100\<rparr>)
                  Map.empty log_price_claim_with_stop = (Inr r, st')
               \<and> 0 \<le> risk r)"
proof -
  let ?d = "[(''agent_id'', PStr ''AGENT_001''),
            (''transcript'', PList [PDict [(''text'', PStr ''Sie fragen nach dem Preis?'')]]),
            (''stop_triggered'', PBool True),
            (''result'', PStr ''STOP_REQUIRED'')]"
  have valid: "fst (validate_log log_price_claim_with_stop)"
    by (simp add: validate_log_def log_price_claim_with_stop_def)
  have raw: "raw_risk_score (default_config\<lparr>placeholder_bonus := - 100\<rparr>) True False True True
               = - 100"
    by (simp add: raw_risk_score_def)
  have d: "log_price_claim_with_stop = PDict ?d"
    by (simp add: log_price_claim_with_stop_def)
  have t: "extract_transcript ?d = Inr ''Sie fragen nach dem Preis?''"
    by (simp add: extract_transcript_def dict_get_def)
  have k: "hash_key (dict_get ?d ''agent_id'' PNone) = Some (KStr ''AGENT_001'')"
    by (simp add: dict_get_def)
  from score_log_risk_nonneg [OF valid, of py_lower "\<lambda>v. []"
      "default_config\<lparr>placeholder_bonus := - 100\<rparr>" Map.empty]
  have "\<exists>r st'. score_log py_lower (\<lambda>v. []) (default_config\<lparr>placeholder_bonus := - 100\<rparr>)
                  Map.empty log_price_claim_with_stop = (Inr r, st')
               \<and> 0 \<le> risk r"
    using d t k by blast
  with valid raw show ?thesis by blast
qed

text \<open>
  Claim C4. With the default configuration, a fresh scorer and \<open>py_lower\<close> (the text is
  ASCII), the log of scenario D is scored with a price claim and a stop, the raw
  accumulation \<open>+1 - 1 - 1 = -1\<close>, the risk 0 and the level LOW.
\<close>

theorem score_log_scenario_D:
  "\<exists>r st'. score_log py_lower repr default_config Map.empty log_price_claim_with_stop = (Inr r, st')
     \<and> price_claim r \<and> stop_triggered r \<and> risk r = 0 \<and> risk_level r = LOW
     \<and> \<not> legal_claim r \<and> placeholder_used r
     \<and> raw_risk_score default_config (price_claim r) (legal_claim r) (stop_triggered r)
         (placeholder_used r) = - 1"
proof -
  have "fst (score_log py_lower repr default_config Map.empty log_price_claim_with_stop) =
     Inr \<lparr> ScoreResult.agent_id = PStr ''AGENT_001'', contact = PNone, timestamp = PNone,
           price_claim = True, price_keywords_found = [''preis''],
           legal_claim = False, legal_keywords_found = [],
           stop_triggered = True, placeholder_used = True,
           risk = 0, risk_level = LOW, violations = [] \<rparr>"
    by code_simp
  moreover have "raw_risk_score default_config True False True True = - 1"
    by (simp add: raw_risk_score_def default_config_def)
  ultimately show ?thesis
    by (cases "score_log py_lower repr default_config Map.empty log_price_claim_with_stop") simp
qed

section \<open>Properties of the statistics\<close>

lemma four_keys:
  assumes "map fst xs = [a, b, c, d]"
  obtains l m h n where "xs = [(a, l), (b, m), (c, h), (d, n)]"
  using assms by (auto simp: map_eq_Cons_conv)

text \<open>Each conditional increment of a counter, read as one update.\<close>

lemma conditional_increments:
  "(if c then X\<lparr>price_claims := price_claims X + 1\<rparr> else X) =
     X\<lparr>price_claims := price_claims X + (if c then 1 else 0)\<rparr>"
  "(if c then X\<lparr>legal_claims := legal_claims X + 1\<rparr> else X) =
     X\<lparr>legal_claims := legal_claims X + (if c then 1 else 0)\<rparr>"
  "(if c then X\<lparr>stops_triggered := stops_triggered X + 1\<rparr> else X) =
     X\<lparr>stops_triggered := stops_triggered X + (if c then 1 else 0)\<rparr>"
  "(if c then X\<lparr>placeholders_used := placeholders_used X + 1\<rparr> else X) =
     X\<lparr>placeholders_used := placeholders_used X + (if c then 1 else 0)\<rparr>"
  "(if c then X\<lparr>critical_incidents := critical_incidents X + 1\<rparr> else X) =
     X\<lparr>critical_incidents := critical_incidents X + (if c then 1 else 0)\<rparr>"
  by simp_all

text \<open>
  One observation of a hashable agent whose entry, if any, satisfies the invariant:
  the call returns, the entry of the agent is replaced by one that satisfies the
  invariant, with one interaction more and the risk added.
\<close>

lemma update_statistics_entry:
  assumes k: "hash_key (ScoreResult.agent_id r) = Some k"
    and inv: "\<And>s. st k = Some s \<Longrightarrow> histogram_invariant s"
  shows "\<exists>s'. update_statistics st r = (Inr (), st(k \<mapsto> s'))
           \<and> histogram_invariant s'
           \<and> total_interactions s' =
               (case st k of None \<Rightarrow> 0 | Some s \<Rightarrow> total_interactions s) + 1
           \<and> total_risk_score s' =
               (case st k of None \<Rightarrow> 0 | Some s \<Rightarrow> total_risk_score s) + risk r"
proof -
  define s where "s = (case st k of None \<Rightarrow> new_statistics | Some s \<Rightarrow> s)"
  have s_inv: "histogram_invariant s"
  proof (cases "st k")
    case None
    then show ?thesis
      by (simp add: s_def histogram_invariant_def new_statistics_def dict_get_def)
  next
    case (Some a)
    with inv show ?thesis by (simp add: s_def)
  qed
  then obtain l m h n
    where rl: "risk_levels s = [(''LOW'', l), (''MEDIUM'', m), (''HIGH'', h), (''CRITICAL'', n)]"
    unfolding histogram_invariant_def by (elim conjE four_keys)
  have tot: "total_interactions s = (case st k of None \<Rightarrow> 0 | Some s \<Rightarrow> total_interactions s)"
    "total_risk_score s = (case st k of None \<Rightarrow> 0 | Some s \<Rightarrow> total_risk_score s)"
    by (simp_all add: s_def new_statistics_def split: option.splits)
  show ?thesis
    using s_inv rl tot k unfolding s_def [symmetric]
    apply (cases "risk_level r")
    apply (simp_all add: update_statistics_def Let_def s_def [symmetric] conditional_increments
        split del: if_split)
    apply (rule exI, rule conjI, rule refl,
        simp add: histogram_invariant_def dict_get_def is_critical_def)+
    done
qed

lemma update_statistics_unhashable:
  "hash_key (ScoreResult.agent_id r) = None \<Longrightarrow> update_statistics st r = (Inl TypeError, st)"
  by (simp add: update_statistics_def)

lemma update_statistics_invariant:
  assumes "\<And>k s. st k = Some s \<Longrightarrow> histogram_invariant s"
    and "snd (update_statistics st r) k = Some s"
  shows "histogram_invariant s"
proof (cases "hash_key (ScoreResult.agent_id r)")
  case None
  with assms show ?thesis by (simp add: update_statistics_unhashable)
next
  case (Some k')
  from update_statistics_entry [OF Some, of st] assms(1)
  obtain s' where "update_statistics st r = (Inr (), st(k' \<mapsto> s'))" "histogram_invariant s'"
    by blast
  with assms show ?thesis by (cases "k = k'") auto
qed

text \<open>The table after \<open>score_log\<close> is the old one or the one \<open>update_statistics\<close> left.\<close>

lemma score_log_table:
  "snd (score_log lower repr config st the_log) = st
   \<or> (\<exists>R. snd (score_log lower repr config st the_log) = snd (update_statistics st R))"
proof (cases "fst (validate_log the_log)")
  case False
  then show ?thesis
    by (cases "validate_log the_log") (simp add: score_log_def)
next
  case True
  then obtain d where d: "the_log = PDict d" "validate_log the_log = (True, [])"
    by (rule validate_log_dict)
  show ?thesis
  proof (cases "extract_transcript d")
    case (Inl e)
    with d show ?thesis by (simp add: score_log_def)
  next
    case (Inr t)
    from d have "validate_log (PDict d) = (True, [])" by simp
    from score_log_valid_unfold [OF this Inr, of lower repr config st]
    obtain R where "score_log lower repr config st (PDict d) =
              (case update_statistics st R of
                 (Inl e, st') \<Rightarrow> (Inl e, st')
               | (Inr u, st') \<Rightarrow> (Inr R, st'))"
      by blast
    then have "snd (score_log lower repr config st the_log) = snd (update_statistics st R)"
      unfolding d(1) by (simp split: prod.splits sum.splits)
    then show ?thesis by blast
  qed
qed

lemma run_calls_invariant:
  assumes "\<And>k s. st k = Some s \<Longrightarrow> histogram_invariant s"
    and "run_calls lower repr config st calls k = Some s"
  shows "histogram_invariant s"
  using assms
proof (induction calls arbitrary: st)
  case Nil
  then show ?case by simp
next
  case (Cons c calls)
  show ?case
  proof (cases c)
    case (ScoreLog l)
    have step: "histogram_invariant s'" if "snd (score_log lower repr config st l) k' = Some s'"
      for k' s'
      using that score_log_table [of lower repr config st l] Cons.prems(1)
        update_statistics_invariant [of st]
      by metis
    from Cons.prems(2) ScoreLog
    have "run_calls lower repr config (snd (score_log lower repr config st l)) calls k = Some s"
      by simp
    with step show ?thesis by (rule Cons.IH)
  next
    case ResetStatistics
    with Cons.prems(2)
    have "run_calls lower repr config Map.empty calls k = Some s"
      by (simp add: reset_statistics_def)
    then show ?thesis by (rule Cons.IH [rotated]) simp
  qed
qed




text \<open>
  Claim C9. Start from a fresh scorer and perform any sequence of calls of \<^verbatim>\<open>score_log\<close>
  (returning or raising) and \<^verbatim>\<open>reset_statistics\<close>. Every entry of the statistics table
  then has a histogram of the four levels, an interaction count equal to the sum of the
  four counters, and a count of critical incidents equal to the sum of the counters of
  HIGH and CRITICAL.
\<close>

theorem statistics_invariant:
  assumes "run_calls lower repr config Map.empty calls k = Some s"
  shows "map fst (risk_levels s) = [''LOW'', ''MEDIUM'', ''HIGH'', ''CRITICAL'']
         \<and> total_interactions s = sum_list (map snd (risk_levels s))
         \<and> critical_incidents s =
             dict_get (risk_levels s) ''HIGH'' 0 + dict_get (risk_levels s) ''CRITICAL'' 0"
  using run_calls_invariant [of Map.empty lower repr config calls k s] assms
  by (simp add: histogram_invariant_def)

theorem statistics_invariant_witness:
  "run_calls py_lower (\<lambda>v. []) default_config Map.empty
       [ScoreLog log_both_claims, ResetStatistics, ScoreLog log_price_claim_with_stop,
        ScoreLog (PStr ''not a dict''), ScoreLog log_both_claims]
       (KStr ''AGENT_001'')
     = Some \<lparr> AgentStatistics.agent_id = PStr ''AGENT_001'',
              total_interactions = 2, total_risk_score = 2,
              price_claims = 2, legal_claims = 1, stops_triggered = 1, placeholders_used = 1,
              critical_incidents = 1,
              risk_levels = [(''LOW'', 1), (''MEDIUM'', 0), (''HIGH'', 1), (''CRITICAL'', 0)] \<rparr>
   \<and> (2 :: int) = sum_list (map snd [(''LOW'', 1), (''MEDIUM'', 0), (''HIGH'', 1), (''CRITICAL'', 0)])
   \<and> (1 :: int) = dict_get [(''LOW'', 1), (''MEDIUM'', 0), (''HIGH'', 1), (''CRITICAL'', 0)] ''HIGH'' 0
                 + dict_get [(''LOW'', 1), (''MEDIUM'', 0), (''HIGH'', 1), (''CRITICAL'', 0)]
                     ''CRITICAL'' 0"
proof -
  have run: "run_calls py_lower (\<lambda>v. []) default_config Map.empty
       [ScoreLog log_both_claims, ResetStatistics, ScoreLog log_price_claim_with_stop,
        ScoreLog (PStr ''not a dict''), ScoreLog log_both_claims]
       (KStr ''AGENT_001'')
     = Some \<lparr> AgentStatistics.agent_id = PStr ''AGENT_001'',
              total_interactions = 2, total_risk_score = 2,
              price_claims = 2, legal_claims = 1, stops_triggered = 1, placeholders_used = 1,
              critical_incidents = 1,
              risk_levels = [(''LOW'', 1), (''MEDIUM'', 0), (''HIGH'', 1), (''CRITICAL'', 0)] \<rparr>"
    by code_simp
  from statistics_invariant [OF run] run show ?thesis by simp
qed

end
